theory Spec2Isabelle
  imports Complex_Main
begin

section \<open>Federated learning with differential privacy on CIFAR-10\<close>

text \<open>
  The notebook loads CIFAR-10, splits the training set among \<open>num_clients\<close> clients,
  builds two federated averaging processes with TensorFlow Federated (a "standard" and a
  "DP" one), trains both for \<open>NUM_ROUNDS\<close> rounds and evaluates the trained states on
  the test set. The functions of TensorFlow, TensorFlow Federated and TensorFlow Privacy
  that the notebook calls are not part of the notebook; where a definition below needs
  one, it takes it as a parameter.
\<close>

subsection \<open>Data: images, labels, preprocessing\<close>

text \<open>
  An image is its sequence of \<open>uint8\<close> pixel values, a label a class index.
  \<^verbatim>\<open>preprocess\<close> casts the pixels to floating point and divides by 255; exact reals
  stand for the \<open>float32\<close> values.
\<close>

type_synonym image = "nat list"
type_synonym label = nat
type_synonym example = "real list \<times> label"

definition preprocess :: "image \<times> label \<Rightarrow> example" where
  "preprocess = (\<lambda>(images, labels). (map (\<lambda>p. real p / 255.0) images, labels))"

text \<open>Python's \<^verbatim>\<open>xs[start:stop]\<close> for non-negative bounds.\<close>

definition slice :: "'a list \<Rightarrow> nat \<Rightarrow> nat \<Rightarrow> 'a list" where
  "slice xs start stop = drop start (take stop xs)"

text \<open>
  \<^verbatim>\<open>Dataset.batch(n)\<close>: consecutive groups of \<open>n\<close> elements, the last one
  possibly shorter; an empty dataset has no batch. The notebook's batch size is 20; a
  batch size of 0, which TensorFlow rejects, gives no batch here.
\<close>

function batch :: "nat \<Rightarrow> 'a list \<Rightarrow> 'a list list" where
  "batch n xs = (if n = 0 \<or> xs = [] then [] else take n xs # batch n (drop n xs))"
  by pat_completeness auto
termination
  by (relation "measure (\<lambda>(n, xs). length xs)") auto

declare batch.simps [simp del]

subsection \<open>Client datasets\<close>

text \<open>
  \<^verbatim>\<open>
  num_clients = 10
  client_datasets = []
  for i in range(num_clients):
      start = i * len(cifar10_train_images) // num_clients
      end = (i + 1) * len(cifar10_train_images) // num_clients
      client_images = cifar10_train_images[start:end]
      client_labels = cifar10_train_labels[start:end]
      client_dataset = tf.data.Dataset.from_tensor_slices((client_images, client_labels))
      client_dataset = client_dataset.map(preprocess).batch(20)
      client_datasets.append(client_dataset)
  \<close>
  The number of clients is a parameter of the model; the notebook runs it at
  \<open>num_clients\<close>. \<^verbatim>\<open>from_tensor_slices\<close> pairs the \<open>i\<close>-th image with the
  \<open>i\<close>-th label; \<^verbatim>\<open>load_data\<close> returns as many labels as images.
\<close>

definition num_clients :: nat where
  "num_clients = 10"

definition client_bounds :: "nat \<Rightarrow> nat \<Rightarrow> nat \<Rightarrow> nat \<times> nat" where
  "client_bounds len k i = (i * len div k, (i + 1) * len div k)"

definition client_dataset :: "image list \<Rightarrow> label list \<Rightarrow> nat \<Rightarrow> nat \<Rightarrow> example list list" where
  "client_dataset train_images train_labels k i =
     (let (start, stop) = client_bounds (length train_images) k i;
          client_images = slice train_images start stop;
          client_labels = slice train_labels start stop
      in batch 20 (map preprocess (zip client_images client_labels)))"

definition client_datasets :: "image list \<Rightarrow> label list \<Rightarrow> nat \<Rightarrow> example list list list" where
  "client_datasets train_images train_labels k =
     map (client_dataset train_images train_labels k) [0..<k]"

subsection \<open>Keras models and model functions\<close>

text \<open>
  A Keras model is its layer stack, the current values of its trainable variables and,
  once \<^verbatim>\<open>compile\<close> was called, the compile arguments. A new model draws its initial
  weights at random; the model takes the drawn weights as the argument \<open>init\<close>, so
  that two creations may differ.
\<close>

type_synonym tensor = "real list"

datatype activation = Relu | NoActivation

datatype layer =
    InputLayer "nat list"
  | Conv2D nat "nat \<times> nat" activation
  | MaxPooling2D "nat \<times> nat"
  | Flatten
  | Dense nat activation

datatype optimizer =
    SGD real
  | DPAdamGaussianOptimizer real real nat real

datatype loss_fn = SparseCategoricalCrossentropy bool

datatype metric = SparseCategoricalAccuracy

record compile_args =
  compile_optimizer :: "optimizer option"
  compile_loss :: loss_fn
  compile_metrics :: "metric list"

record keras_model =
  layers :: "layer list"
  trainable_variables :: "tensor list"
  compiled :: "compile_args option"

definition create_keras_model :: "tensor list \<Rightarrow> keras_model" where
  "create_keras_model init =
     \<lparr>layers =
        [InputLayer [32, 32, 3],
         Conv2D 32 (3, 3) Relu,
         MaxPooling2D (2, 2),
         Conv2D 64 (3, 3) Relu,
         MaxPooling2D (2, 2),
         Flatten,
         Dense 64 Relu,
         Dense 10 NoActivation],
      trainable_variables = init,
      compiled = None\<rparr>"

definition compile :: "keras_model \<Rightarrow> optimizer option \<Rightarrow> loss_fn \<Rightarrow> metric list \<Rightarrow> keras_model" where
  "compile keras_model opt l ms =
     keras_model\<lparr>compiled := Some \<lparr>compile_optimizer = opt, compile_loss = l, compile_metrics = ms\<rparr>\<rparr>"

text \<open>
  \<^verbatim>\<open>tff.learning.from_keras_model\<close> wraps a Keras model with an input
  specification, a loss and metrics; the wrapper keeps what it was given. The input
  specification is \<^verbatim>\<open>client_datasets[0].element_spec\<close>, a parameter here.
\<close>

record 'spec tff_model =
  wrapped_keras_model :: keras_model
  input_spec :: 'spec
  tff_loss :: loss_fn
  tff_metrics :: "metric list"

definition from_keras_model ::
    "keras_model \<Rightarrow> 'spec \<Rightarrow> loss_fn \<Rightarrow> metric list \<Rightarrow> 'spec tff_model" where
  "from_keras_model keras_model spec l ms =
     \<lparr>wrapped_keras_model = keras_model, input_spec = spec, tff_loss = l, tff_metrics = ms\<rparr>"

definition weights_trainable :: "'spec tff_model \<Rightarrow> tensor list" where
  "weights_trainable tff_model = trainable_variables (wrapped_keras_model tff_model)"

text \<open>
  \<^verbatim>\<open>
  def model_fn_standard():
      keras_model = create_keras_model()
      return tff.learning.from_keras_model(
          keras_model,
          input_spec=client_datasets[0].element_spec,
          loss=tf.keras.losses.SparseCategoricalCrossentropy(from_logits=True),
          metrics=[tf.keras.metrics.SparseCategoricalAccuracy()])
  \<close>
\<close>

definition model_fn_standard :: "'spec \<Rightarrow> tensor list \<Rightarrow> 'spec tff_model" where
  "model_fn_standard spec init =
     (let keras_model = create_keras_model init
      in from_keras_model keras_model spec
           (SparseCategoricalCrossentropy True) [SparseCategoricalAccuracy])"

text \<open>
  The first part of the notebook defines \<^verbatim>\<open>model_fn_with_dp\<close> with the body of
  \<^verbatim>\<open>model_fn_standard\<close>.
\<close>

definition model_fn_with_dp_first :: "'spec \<Rightarrow> tensor list \<Rightarrow> 'spec tff_model" where
  "model_fn_with_dp_first spec init =
     (let keras_model = create_keras_model init
      in from_keras_model keras_model spec
           (SparseCategoricalCrossentropy True) [SparseCategoricalAccuracy])"

text \<open>
  The "enhanced approach" compiles the Keras model with a differentially private
  optimizer before wrapping it:
  \<^verbatim>\<open>
  def model_fn_with_dp():
      keras_model = create_keras_model()
      optimizer = tfp.DPAdamGaussianOptimizer(
          l2_norm_clip=1.0, noise_multiplier=0.5, num_microbatches=1, learning_rate=0.001)
      keras_model.compile(optimizer=optimizer,
                          loss=tf.keras.losses.SparseCategoricalCrossentropy(from_logits=True),
                          metrics=[tf.keras.metrics.SparseCategoricalAccuracy()])
      return tff.learning.from_keras_model(keras_model, input_spec=..., loss=..., metrics=...)
  \<close>
  What \<^verbatim>\<open>tff.learning.from_keras_model\<close> does with a model that has been compiled, the
  value it returns or the exception it raises, is the library's; \<open>wrap_compiled\<close> stands
  for that call.
\<close>

definition model_fn_with_dp ::
    "(keras_model \<Rightarrow> 'spec \<Rightarrow> loss_fn \<Rightarrow> metric list \<Rightarrow> 'r) \<Rightarrow> 'spec \<Rightarrow> tensor list \<Rightarrow> 'r" where
  "model_fn_with_dp wrap_compiled spec init =
     (let keras_model = create_keras_model init;
          optimizer = DPAdamGaussianOptimizer 1.0 0.5 1 0.001;
          keras_model = compile keras_model (Some optimizer)
            (SparseCategoricalCrossentropy True) [SparseCategoricalAccuracy]
      in wrap_compiled keras_model spec
           (SparseCategoricalCrossentropy True) [SparseCategoricalAccuracy])"

subsection \<open>The two federated averaging processes\<close>

text \<open>
  \<^verbatim>\<open>tff.learning.build_federated_averaging_process(model_fn, client_optimizer_fn,
  server_optimizer_fn)\<close> is the library's; \<open>build\<close> stands for it. The process it
  returns is a function of the three arguments.
  \<^verbatim>\<open>
  iterative_process_standard = tff.learning.build_federated_averaging_process(
      model_fn_standard,
      client_optimizer_fn=lambda: tf.keras.optimizers.SGD(learning_rate=0.02),
      server_optimizer_fn=lambda: tf.keras.optimizers.SGD(learning_rate=1.0))

  iterative_process_with_dp = tff.learning.build_federated_averaging_process(
      model_fn_standard,  # Use standard model_fn as DP optimizer will be applied in the client update
      client_optimizer_fn=lambda: tf.keras.optimizers.SGD(learning_rate=0.02),
      server_optimizer_fn=lambda: tf.keras.optimizers.SGD(learning_rate=1.0))
  \<close>
  In the first part of the notebook the second call passes \<^verbatim>\<open>model_fn_with_dp\<close>
  (the one with the body of \<^verbatim>\<open>model_fn_standard\<close>).
\<close>

type_synonym ('spec, 'p) builder =
  "(tensor list \<Rightarrow> 'spec tff_model) \<Rightarrow> (unit \<Rightarrow> optimizer) \<Rightarrow> (unit \<Rightarrow> optimizer) \<Rightarrow> 'p"

definition iterative_process_standard :: "('spec, 'p) builder \<Rightarrow> 'spec \<Rightarrow> 'p" where
  "iterative_process_standard build spec =
     build (model_fn_standard spec) (\<lambda>_. SGD 0.02) (\<lambda>_. SGD 1.0)"

definition iterative_process_with_dp :: "('spec, 'p) builder \<Rightarrow> 'spec \<Rightarrow> 'p" where
  "iterative_process_with_dp build spec =
     build (model_fn_standard spec) (\<lambda>_. SGD 0.02) (\<lambda>_. SGD 1.0)"

definition iterative_process_with_dp_first :: "('spec, 'p) builder \<Rightarrow> 'spec \<Rightarrow> 'p" where
  "iterative_process_with_dp_first build spec =
     build (model_fn_with_dp_first spec) (\<lambda>_. SGD 0.02) (\<lambda>_. SGD 1.0)"

subsection \<open>The training loop\<close>

text \<open>
  An iterative process offers \<^verbatim>\<open>initialize()\<close> and \<^verbatim>\<open>next(state, data)\<close>.
  Both are the library's: \<open>initialize\<close> is the state that the call returns, and a
  call of \<^verbatim>\<open>next\<close> returns the new state and the round's metrics (a dictionary), or
  raises; \<open>Inl\<close> is the exception.
  \<^verbatim>\<open>
  NUM_ROUNDS = 10
  state_standard = iterative_process_standard.initialize()
  for round_num in range(NUM_ROUNDS):
      state_standard, metrics_standard = iterative_process_standard.next(state_standard, client_datasets)
      print(f'Standard Model - Round {round_num}, metrics={metrics_standard["train"]}')
  \<close>
  The loop for the DP model is the same loop on \<^verbatim>\<open>iterative_process_with_dp\<close>. (The
  loops of the first part of the notebook print the whole dictionary instead of its
  \<^verbatim>\<open>"train"\<close> entry.)

  A training run is the state variable, the loop variable \<^verbatim>\<open>round_num\<close> (taken
  as unset before the first round of the run: the loop overwrites whatever an earlier
  loop left in it), the lines printed so far (round number and train metrics) and the
  exception that ended the run, if one did. A round first sets
  \<^verbatim>\<open>round_num\<close>, then calls \<^verbatim>\<open>next\<close>, then replaces the state, then looks up
  \<^verbatim>\<open>"train"\<close> and prints. An exception leaves the loop at once: if \<^verbatim>\<open>next\<close> raises,
  the state is not replaced and nothing is printed; if the metrics have no \<^verbatim>\<open>"train"\<close>
  entry, the lookup raises \<^verbatim>\<open>KeyError\<close> with the state already replaced and nothing
  printed. No later round runs.
\<close>

record ('s, 'd, 'm, 'e) iterative_process =
  initialize :: 's
  next_round :: "'s \<Rightarrow> 'd \<Rightarrow> 'e + 's \<times> (string \<rightharpoonup> 'm)"

datatype 'e loop_exception = NextRaised 'e | KeyError string

record ('s, 'm, 'e) training =
  server_state :: 's
  round_num :: "nat option"
  printed :: "(nat \<times> 'm) list"
  raised :: "'e loop_exception option"

definition NUM_ROUNDS :: nat where
  "NUM_ROUNDS = 10"

definition round_body ::
    "('s, 'd, 'm, 'e) iterative_process \<Rightarrow> 'd \<Rightarrow> nat \<Rightarrow> ('s, 'm, 'e) training \<Rightarrow> ('s, 'm, 'e) training" where
  "round_body process datasets r t =
     (let t = t\<lparr>round_num := Some r\<rparr>
      in case next_round process (server_state t) datasets of
           Inl e \<Rightarrow> t\<lparr>raised := Some (NextRaised e)\<rparr>
         | Inr (s', metrics) \<Rightarrow>
             (let t = t\<lparr>server_state := s'\<rparr>
              in case metrics ''train'' of
                   None \<Rightarrow> t\<lparr>raised := Some (KeyError ''train'')\<rparr>
                 | Some m \<Rightarrow> t\<lparr>printed := printed t @ [(r, m)]\<rparr>))"

fun for_rounds ::
    "('s, 'd, 'm, 'e) iterative_process \<Rightarrow> 'd \<Rightarrow> nat list \<Rightarrow> ('s, 'm, 'e) training \<Rightarrow> ('s, 'm, 'e) training" where
  "for_rounds process datasets [] t = t"
| "for_rounds process datasets (r # rest) t =
     (let t' = round_body process datasets r t
      in if raised t' = None then for_rounds process datasets rest t' else t')"

definition train ::
    "('s, 'd, 'm, 'e) iterative_process \<Rightarrow> 'd \<Rightarrow> nat \<Rightarrow> ('s, 'm, 'e) training" where
  "train process datasets num_rounds =
     for_rounds process datasets [0..<num_rounds]
       \<lparr>server_state = initialize process, round_num = None, printed = [], raised = None\<rparr>"

subsection \<open>Evaluation\<close>

text \<open>
  The state of a federated averaging process carries the model weights:
  \<^verbatim>\<open>state.model.trainable\<close> are the trained values of the trainable variables.
\<close>

record model_weights =
  trainable :: "tensor list"
  non_trainable :: "tensor list"

record 'o server_state_rec =
  model :: model_weights
  optimizer_state :: 'o

text \<open>
  \<^verbatim>\<open>for var, tff_var in zip(vars, values): var.assign(tff_var)\<close>: the first variables
  take the values paired with them; variables beyond the shorter list keep their value.
\<close>

definition assign_zip :: "tensor list \<Rightarrow> tensor list \<Rightarrow> tensor list" where
  "assign_zip vars vals = map snd (zip vars vals) @ drop (length vals) vars"

datatype py_error = ValueError

text \<open>
  \<^verbatim>\<open>test_images, test_labels = zip(*list(test_dataset))\<close> followed by
  \<^verbatim>\<open>tf.concat(..., axis=0)\<close>: the batches' images and labels, concatenated. On a
  dataset with no batch the unpacking raises \<^verbatim>\<open>ValueError\<close>.
\<close>

definition unzip_concat :: "('a list \<times> 'b list) list \<Rightarrow> py_error + 'a list \<times> 'b list" where
  "unzip_concat test_dataset =
     (if test_dataset = [] then Inl ValueError
      else Inr (concat (map fst test_dataset), concat (map snd test_dataset)))"

text \<open>
  The first part of the notebook:
  \<^verbatim>\<open>
  def evaluate_model(state, model_fn, test_dataset):
      keras_model = create_keras_model()
      tff_model = model_fn()

      # Create a function to extract weights from the TFF state
      def assign_weights_to_keras_model(keras_model, tff_model):
          tff_weights = tff_model.weights.trainable
          for var, tff_var in zip(keras_model.trainable_variables, tff_weights):
              var.assign(tff_var.numpy())

      # Assign weights from the TFF state to the Keras model
      assign_weights_to_keras_model(keras_model, tff_model)

      # Compile the Keras model
      keras_model.compile(loss=..., metrics=[...])

      test_images, test_labels = zip(*list(test_dataset))
      test_images = tf.concat(test_images, axis=0)
      test_labels = tf.concat(test_labels, axis=0)

      loss, accuracy = keras_model.evaluate(test_images, test_labels, verbose=0)
      return loss, accuracy
  \<close>
  \<^verbatim>\<open>keras_model.evaluate\<close> is Keras's; \<open>evaluate\<close> stands for it. The two model
  creations draw the initial weights \<open>init_keras\<close> and \<open>init_tff\<close>.
\<close>

definition assign_weights_to_keras_model_first :: "keras_model \<Rightarrow> 'spec tff_model \<Rightarrow> keras_model" where
  "assign_weights_to_keras_model_first keras_model tff_model =
     (let tff_weights = weights_trainable tff_model
      in keras_model\<lparr>trainable_variables :=
           assign_zip (trainable_variables keras_model) tff_weights\<rparr>)"

definition evaluate_model_first ::
    "(keras_model \<Rightarrow> 'x list \<Rightarrow> 'y list \<Rightarrow> real \<times> real) \<Rightarrow> tensor list \<Rightarrow> tensor list \<Rightarrow>
     'o server_state_rec \<Rightarrow> (tensor list \<Rightarrow> 'spec tff_model) \<Rightarrow> ('x list \<times> 'y list) list \<Rightarrow>
     py_error + real \<times> real" where
  "evaluate_model_first evaluate init_keras init_tff state model_fn test_dataset =
     (let keras_model = create_keras_model init_keras;
          tff_model = model_fn init_tff;
          keras_model = assign_weights_to_keras_model_first keras_model tff_model;
          keras_model = compile keras_model None
            (SparseCategoricalCrossentropy True) [SparseCategoricalAccuracy]
      in case unzip_concat test_dataset of
           Inl e \<Rightarrow> Inl e
         | Inr (test_images, test_labels) \<Rightarrow> Inr (evaluate keras_model test_images test_labels))"

text \<open>
  The "enhanced approach", as the first notebook has it:
  \<^verbatim>\<open>
  def assign_weights_to_keras_model(keras_model, tff_state):
      tff_weights = tff_state.model.trainable
      for var, tff_var in zip(keras_model.trainable_variables, tff_weights):
          var.assign(tff_var)  # Removed .numpy()

  def evaluate_model(state, model_fn, test_dataset):
      keras_model = create_keras_model()
      assign_weights_to_keras_model(keras_model, state)
      keras_model.compile(loss=..., metrics=[...])
      test_images, test_labels = zip(*list(test_dataset))
      test_images = tf.concat(test_images, axis=0)
      test_labels = tf.concat(test_labels, axis=0)
      loss, accuracy = keras_model.evaluate(test_images, test_labels, verbose=0)
      return loss, accuracy
  \<close>
  The copy of \<^verbatim>\<open>assign_weights_to_keras_model\<close> in the second notebook assigns
  \<^verbatim>\<open>tff_var.numpy()\<close> instead of \<^verbatim>\<open>tff_var\<close>; whether the values of a state have
  that method is the library's, and that copy is not modelled here.
\<close>

definition assign_weights_to_keras_model :: "keras_model \<Rightarrow> 'o server_state_rec \<Rightarrow> keras_model" where
  "assign_weights_to_keras_model keras_model tff_state =
     (let tff_weights = trainable (model tff_state)
      in keras_model\<lparr>trainable_variables :=
           assign_zip (trainable_variables keras_model) tff_weights\<rparr>)"

definition evaluate_model ::
    "(keras_model \<Rightarrow> 'x list \<Rightarrow> 'y list \<Rightarrow> real \<times> real) \<Rightarrow> tensor list \<Rightarrow>
     'o server_state_rec \<Rightarrow> (tensor list \<Rightarrow> 'spec tff_model) \<Rightarrow> ('x list \<times> 'y list) list \<Rightarrow>
     py_error + real \<times> real" where
  "evaluate_model evaluate init_keras state model_fn test_dataset =
     (let keras_model = create_keras_model init_keras;
          keras_model = assign_weights_to_keras_model keras_model state;
          keras_model = compile keras_model None
            (SparseCategoricalCrossentropy True) [SparseCategoricalAccuracy]
      in case unzip_concat test_dataset of
           Inl e \<Rightarrow> Inl e
         | Inr (test_images, test_labels) \<Rightarrow> Inr (evaluate keras_model test_images test_labels))"

section \<open>Properties of the client split\<close>

lemma concat_batch: "0 < n \<Longrightarrow> concat (batch n xs) = xs"
proof (induction n xs rule: batch.induct)
  case (1 n xs)
  show ?case
  proof (cases "xs = []")
    case True
    then show ?thesis by (simp add: batch.simps)
  next
    case False
    with 1 show ?thesis by (subst batch.simps) simp
  qed
qed

lemma batch_empty_iff: "0 < n \<Longrightarrow> batch n xs = [] \<longleftrightarrow> xs = []"
  by (subst batch.simps) simp

lemma slice_append:
  assumes "a \<le> b" "b \<le> c"
  shows "slice xs a b @ slice xs b c = slice xs a c"
proof -
  have split: "take c xs = take b xs @ drop b (take c xs)"
  proof -
    have "take b (take c xs) = take b xs"
      using assms by (simp add: min_absorb1)
    then show ?thesis
      using append_take_drop_id [of b "take c xs"] by simp
  qed
  have rest: "drop (a - length (take b xs)) (drop b (take c xs)) = drop b (take c xs)"
  proof (cases "b \<le> length xs")
    case True
    then show ?thesis using assms by simp
  next
    case False
    then show ?thesis by simp
  qed
  have "drop a (take c xs) = drop a (take b xs @ drop b (take c xs))"
    using split by simp
  also have "\<dots> = drop a (take b xs) @ drop (a - length (take b xs)) (drop b (take c xs))"
    by (rule drop_append)
  finally show ?thesis
    unfolding slice_def using rest by simp
qed

lemma slice_zip: "slice (zip xs ys) a b = zip (slice xs a b) (slice ys a b)"
  by (simp add: slice_def take_zip drop_zip)

lemma slice_map: "slice (map f xs) a b = map f (slice xs a b)"
  by (simp add: slice_def take_map drop_map)

lemma slice_all: "length xs \<le> b \<Longrightarrow> slice xs 0 b = xs"
  by (simp add: slice_def)

lemma slice_empty_iff: "slice xs a b = [] \<longleftrightarrow> min b (length xs) \<le> a"
  by (simp add: slice_def min.commute)

lemma bound_mono: "i \<le> j \<Longrightarrow> i * n div k \<le> j * n div (k::nat)"
  by (simp add: div_le_mono)

lemma bound_step:
  assumes "0 < k" "k \<le> n"
  shows "i * n div k < (i + 1) * n div (k::nat)"
proof -
  have "i * n div k + 1 = (i * n + k) div k"
    using assms by simp
  also have "\<dots> \<le> (i * n + n) div k"
    using assms by (intro div_le_mono) simp
  finally show ?thesis
    by (simp add: algebra_simps)
qed

lemma bound_last: "0 < k \<Longrightarrow> k * n div k = (n::nat)"
  by simp

lemma bound_le_total:
  assumes "0 < k" "i \<le> k"
  shows "i * n div k \<le> (n::nat)"
proof -
  have "i * n div k \<le> k * n div k"
    using assms by (intro bound_mono)
  then show ?thesis
    using assms by simp
qed

lemma concat_slices:
  assumes "\<And>i j. i \<le> j \<Longrightarrow> f i \<le> (f j :: nat)"
  shows "concat (map (\<lambda>i. slice xs (f i) (f (Suc i))) [0..<m]) = slice xs (f 0) (f m)"
proof (induction m)
  case 0
  show ?case by (simp add: slice_def)
next
  case (Suc m)
  have "f 0 \<le> f m" "f m \<le> f (Suc m)"
    using assms by simp_all
  then show ?case
    using Suc by (simp add: slice_append)
qed

lemma union_ranges:
  assumes "\<And>i j. i \<le> j \<Longrightarrow> f i \<le> (f j :: nat)"
  shows "(\<Union>i<m. {f i..<f (Suc i)}) = {f 0..<f m}"
proof (induction m)
  case 0
  show ?case by simp
next
  case (Suc m)
  have "f 0 \<le> f m" "f m \<le> f (Suc m)"
    using assms by simp_all
  then have "{f 0..<f m} \<union> {f m..<f (Suc m)} = {f 0..<f (Suc m)}"
    by (rule ivl_disj_un_two)
  then show ?case
    using Suc by (simp add: lessThan_Suc Un_commute)
qed

lemma ranges_disjoint:
  assumes "i \<noteq> j"
  shows "{i * n div k..<(i + 1) * n div k} \<inter> {j * n div k..<(j + 1) * n div (k::nat)} = {}"
proof -
  have disj: "{a * n div k..<(a + 1) * n div k} \<inter> {b * n div k..<(b + 1) * n div k} = {}"
    if "a < b" for a b
  proof -
    have "(a + 1) * n div k \<le> b * n div k"
      using that by (intro bound_mono) simp
    then show ?thesis
      by auto
  qed
  show ?thesis
  proof (cases "i < j")
    case True
    then show ?thesis by (rule disj)
  next
    case False
    with assms have "j < i" by simp
    then have "{j * n div k..<(j + 1) * n div k} \<inter> {i * n div k..<(i + 1) * n div k} = {}"
      by (rule disj)
    then show ?thesis by (simp add: Int_commute)
  qed
qed

lemma ranges_cover:
  assumes "0 < k"
  shows "(\<Union>i<k. {i * n div k..<(i + 1) * n div k}) = {0..<n::nat}"
proof -
  have "(\<Union>i<k. {i * n div k..<Suc i * n div k}) = {0 * n div k..<k * n div k}"
    by (rule union_ranges [where f = "\<lambda>i. i * n div k"]) (rule bound_mono)
  then show ?thesis
    using assms by simp
qed

lemma slice_nth:
  assumes "b \<le> length xs"
  shows "slice xs a b = map (\<lambda>j. xs ! j) [a..<b]"
proof -
  have "take b (map (\<lambda>j. xs ! j) [0..<length xs]) = map (\<lambda>j. xs ! j) [0..<b]"
    using assms by (simp add: take_map)
  then have "take b xs = map (\<lambda>j. xs ! j) [0..<b]"
    by (simp add: map_nth)
  then have "slice xs a b = map (\<lambda>j. xs ! j) (drop a [0..<b])"
    by (simp add: slice_def drop_map)
  then show ?thesis
    by simp
qed

lemma client_dataset_examples:
  "concat (client_dataset imgs lbls k i) =
     slice (map preprocess (zip imgs lbls)) (i * length imgs div k) (Suc i * length imgs div k)"
  by (simp add: client_dataset_def client_bounds_def concat_batch slice_zip slice_map)

lemma client_dataset_by_index:
  assumes "0 < k" "i < k" "length lbls = length imgs"
  shows "client_dataset imgs lbls k i =
     batch 20 (map (\<lambda>j. preprocess (imgs ! j, lbls ! j))
       [i * length imgs div k..<(i + 1) * length imgs div k])"
proof -
  let ?a = "i * length imgs div k" and ?b = "(i + 1) * length imgs div k"
  have b: "?b \<le> length imgs"
    using assms by (intro bound_le_total) simp_all
  then have "slice imgs ?a ?b = map (\<lambda>j. imgs ! j) [?a..<?b]"
    and "slice lbls ?a ?b = map (\<lambda>j. lbls ! j) [?a..<?b]"
    using assms by (simp_all add: slice_nth)
  then have "zip (slice imgs ?a ?b) (slice lbls ?a ?b) = map (\<lambda>j. (imgs ! j, lbls ! j)) [?a..<?b]"
    by (simp add: zip_map_map zip_same_conv_map)
  then show ?thesis
    by (simp add: client_dataset_def client_bounds_def comp_def)
qed

lemma client_datasets_examples:
  assumes "0 < k"
  shows "concat (map concat (client_datasets imgs lbls k)) = map preprocess (zip imgs lbls)"
proof -
  let ?exs = "map preprocess (zip imgs lbls)"
  let ?f = "\<lambda>i. i * length imgs div k"
  have "concat (map concat (client_datasets imgs lbls k)) =
        concat (map (\<lambda>i. slice ?exs (?f i) (?f (Suc i))) [0..<k])"
    by (simp add: client_datasets_def comp_def client_dataset_examples)
  also have "\<dots> = slice ?exs (?f 0) (?f k)"
    by (rule concat_slices) (rule bound_mono)
  also have "\<dots> = ?exs"
    using assms by (simp add: slice_all)
  finally show ?thesis .
qed

lemma notebook_client_bounds:
  "client_bounds 50000 num_clients i = (5000 * i, 5000 * i + 5000)"
  by (simp add: client_bounds_def num_clients_def)

lemma client_dataset_nonempty:
  assumes "0 < k" "k \<le> length imgs" "length lbls = length imgs" "i < k"
  shows "client_dataset imgs lbls k i \<noteq> []"
proof -
  have lt: "i * length imgs div k < (i + 1) * length imgs div k"
    using assms by (intro bound_step)
  have "i * length imgs div k < length imgs"
  proof -
    have "(i + 1) * length imgs div k \<le> length imgs"
      using assms by (intro bound_le_total) simp_all
    with lt show ?thesis by simp
  qed
  with lt have "slice (zip imgs lbls) (i * length imgs div k) ((i + 1) * length imgs div k) \<noteq> []"
    using assms by (simp add: slice_empty_iff)
  then show ?thesis
    by (simp add: client_dataset_def client_bounds_def batch_empty_iff slice_zip)
qed

text \<open>
  C10. The client split partitions the \<open>N\<close> training examples among the \<open>k\<close> clients
  by the contiguous index ranges \<open>[i * N div k, (i + 1) * N div k)\<close>: there are \<open>k\<close>
  client datasets, and the dataset of client \<open>i\<close> is, in batches of 20, the preprocessed
  examples at the indices from \<open>i * N div k\<close> up to but not including
  \<open>(i + 1) * N div k\<close>, all of them below \<open>N\<close>; the ranges of two different clients are
  disjoint and together they are all indices below \<open>N\<close>, so that the examples of the
  client datasets read in order are the preprocessed training set, each example once;
  and when there are at least as many examples as clients no client dataset is empty.
\<close>

theorem client_datasets_partition:
  assumes "0 < k" and "length train_labels = length train_images"
  shows "length (client_datasets train_images train_labels k) = k
       \<and> (\<forall>i<k. client_datasets train_images train_labels k ! i =
             batch 20 (map (\<lambda>j. preprocess (train_images ! j, train_labels ! j))
               [i * length train_images div k..<(i + 1) * length train_images div k])
           \<and> (i + 1) * length train_images div k \<le> length train_images)
       \<and> (\<forall>i j. i \<noteq> j \<longrightarrow>
             {i * length train_images div k..<(i + 1) * length train_images div k}
               \<inter> {j * length train_images div k..<(j + 1) * length train_images div k} = {})
       \<and> (\<Union>i<k. {i * length train_images div k..<(i + 1) * length train_images div k}) =
           {0..<length train_images}
       \<and> concat (map concat (client_datasets train_images train_labels k)) =
           map preprocess (zip train_images train_labels)
       \<and> (k \<le> length train_images \<longrightarrow>
            (\<forall>i<k. client_datasets train_images train_labels k ! i \<noteq> []))"
proof -
  have nth: "client_datasets train_images train_labels k ! i =
      client_dataset train_images train_labels k i" if "i < k" for i
    using that by (simp add: client_datasets_def)
  have count: "length (client_datasets train_images train_labels k) = k"
    by (simp add: client_datasets_def)
  have each: "client_datasets train_images train_labels k ! i =
        batch 20 (map (\<lambda>j. preprocess (train_images ! j, train_labels ! j))
          [i * length train_images div k..<(i + 1) * length train_images div k])
      \<and> (i + 1) * length train_images div k \<le> length train_images" if "i < k" for i
  proof -
    have "(i + 1) * length train_images div k \<le> length train_images"
      using assms(1) that by (intro bound_le_total) simp_all
    then show ?thesis
      using assms that by (simp add: nth client_dataset_by_index)
  qed
  have disjoint: "{i * length train_images div k..<(i + 1) * length train_images div k}
      \<inter> {j * length train_images div k..<(j + 1) * length train_images div k} = {}"
    if "i \<noteq> j" for i j
    using that by (rule ranges_disjoint)
  have cover: "(\<Union>i<k. {i * length train_images div k..<(i + 1) * length train_images div k}) =
      {0..<length train_images}"
    using assms(1) by (rule ranges_cover)
  have examples: "concat (map concat (client_datasets train_images train_labels k)) =
      map preprocess (zip train_images train_labels)"
    using assms(1) by (rule client_datasets_examples)
  have nonempty: "client_datasets train_images train_labels k ! i \<noteq> []"
    if "k \<le> length train_images" "i < k" for i
    using assms that by (simp add: nth client_dataset_nonempty)
  from count each disjoint cover examples nonempty show ?thesis
    by blast
qed

text \<open>
  Five examples among three clients: the bounds are \<open>0, 5 div 3 = 1, 10 div 3 = 3, 5\<close>,
  so the clients hold one, two and two examples.
\<close>

theorem client_datasets_partition_witness:
  "client_datasets [[0], [51], [102], [153], [255]] [3, 1, 4, 1, 5] 3 =
     [[[([0], 3)]], [[([1 / 5], 1), ([2 / 5], 4)]], [[([3 / 5], 1), ([1], 5)]]]
   \<and> client_datasets [[0], [51], [102], [153], [255]] [3, 1, 4, 1, 5] 3 ! 1 =
       batch 20 [preprocess ([51], 1), preprocess ([102], 4)]
   \<and> {1 * 5 div 3..<(1 + 1) * 5 div 3} \<inter> {2 * 5 div 3..<(2 + 1) * 5 div (3::nat)} = {}
   \<and> concat (map concat (client_datasets [[0], [51], [102], [153], [255]] [3, 1, 4, 1, 5] 3)) =
       map preprocess (zip [[0], [51], [102], [153], [255]] [3, 1, 4, 1, 5])
   \<and> client_datasets [[0], [51], [102], [153], [255]] [3, 1, 4, 1, 5] 3 ! 1 \<noteq> []"
proof -
  let ?imgs = "[[0], [51], [102], [153], [255 :: nat]]"
  let ?lbls = "[3, 1, 4, 1, 5 :: nat]"
  have ev: "client_datasets ?imgs ?lbls 3 =
     [[[([0], 3)]], [[([1 / 5], 1), ([2 / 5], 4)]], [[([3 / 5], 1), ([1], 5)]]]"
    by (simp add: client_datasets_def client_dataset_def client_bounds_def slice_def
        preprocess_def batch.simps upt_conv_Cons)
  have len: "length ?imgs = 5"
    by simp
  have pos: "(0::nat) < 3" and same: "length ?lbls = length ?imgs" and enough: "3 \<le> length ?imgs"
    and one: "(1::nat) < 3" and other: "(1::nat) \<noteq> 2"
    by simp_all
  note part = client_datasets_partition [OF pos same]
  from part one have "client_datasets ?imgs ?lbls 3 ! 1 =
      batch 20 (map (\<lambda>j. preprocess (?imgs ! j, ?lbls ! j))
        [1 * length ?imgs div 3..<(1 + 1) * length ?imgs div 3])"
    by blast
  then have second: "client_datasets ?imgs ?lbls 3 ! 1 =
      batch 20 [preprocess ([51], 1), preprocess ([102], 4)]"
    unfolding len by (simp add: upt_conv_Cons)
  from part other have "{1 * length ?imgs div 3..<(1 + 1) * length ?imgs div 3}
      \<inter> {2 * length ?imgs div 3..<(2 + 1) * length ?imgs div 3} = {}"
    by blast
  then have disjoint: "{1 * 5 div 3..<(1 + 1) * 5 div 3} \<inter> {2 * 5 div 3..<(2 + 1) * 5 div (3::nat)} = {}"
    unfolding len .
  from part have examples: "concat (map concat (client_datasets ?imgs ?lbls 3)) =
      map preprocess (zip ?imgs ?lbls)"
    by blast
  from part enough one have nonempty: "client_datasets ?imgs ?lbls 3 ! 1 \<noteq> []"
    by blast
  from ev second disjoint examples nonempty show ?thesis
    by blast
qed

section \<open>The DP process and the standard process\<close>

lemma model_fn_with_dp_first_eq: "model_fn_with_dp_first = model_fn_standard"
  by (intro ext) (simp add: model_fn_with_dp_first_def model_fn_standard_def)

lemma model_fn_with_dp_wraps:
  "model_fn_with_dp wrap_compiled spec init =
     wrap_compiled
       ((create_keras_model init)
          \<lparr>compiled := Some \<lparr>compile_optimizer = Some (DPAdamGaussianOptimizer 1.0 0.5 1 0.001),
             compile_loss = SparseCategoricalCrossentropy True,
             compile_metrics = [SparseCategoricalAccuracy]\<rparr>\<rparr>)
       spec (SparseCategoricalCrossentropy True) [SparseCategoricalAccuracy]"
  by (simp add: model_fn_with_dp_def compile_def)

text \<open>
  C1. The specification requires the iterative process used for "DP" training to differ
  from the one used for standard training, every microbatch gradient being clipped and
  noised before the local optimizer consumes it. In the notebook both processes are built from
  the same model function, the same client optimizer (plain SGD with learning rate 0.02)
  and the same server optimizer, in the first part as in the enhanced one; the model
  function that sets up the differentially private optimizer is passed to neither. Whatever
  the builder is, the DP process is the standard process.
\<close>

theorem iterative_process_with_dp_is_standard:
  "iterative_process_with_dp build spec = iterative_process_standard build spec
   \<and> iterative_process_with_dp_first build spec = iterative_process_standard build spec"
  by (simp add: iterative_process_with_dp_def iterative_process_with_dp_first_def
      iterative_process_standard_def model_fn_with_dp_first_eq)

lemma train_with_dp_is_standard:
  "train (iterative_process_with_dp build spec) datasets n =
   train (iterative_process_standard build spec) datasets n"
  by (simp add: iterative_process_with_dp_def iterative_process_standard_def)

section \<open>Evaluation and the trained state\<close>

lemma assign_zip_same_length: "length vals = length vars \<Longrightarrow> assign_zip vars vals = vals"
  by (simp add: assign_zip_def map_snd_zip)

lemma evaluate_model_reads_state:
  assumes "length (trainable (model state)) = length init_keras" and "test_dataset \<noteq> []"
  shows "evaluate_model evaluate init_keras state model_fn test_dataset =
     Inr (evaluate
       ((create_keras_model init_keras)
          \<lparr>trainable_variables := trainable (model state),
           compiled := Some \<lparr>compile_optimizer = None,
             compile_loss = SparseCategoricalCrossentropy True,
             compile_metrics = [SparseCategoricalAccuracy]\<rparr>\<rparr>)
       (concat (map fst test_dataset)) (concat (map snd test_dataset)))"
  using assms
  by (simp add: evaluate_model_def assign_weights_to_keras_model_def compile_def
      unzip_concat_def assign_zip_same_length create_keras_model_def)

text \<open>
  C9. The result of \<^verbatim>\<open>evaluate_model(state, ...)\<close> should be the loss and accuracy
  of the parameters carried by \<open>state\<close>. The \<^verbatim>\<open>evaluate_model\<close> of the first
  part of the notebook never reads \<open>state\<close>: it copies the weights of the model that
  \<^verbatim>\<open>model_fn()\<close> has just created. Its result is the same for any two states (here a
  trained standard state and a trained DP state, of any two state types).
\<close>

theorem evaluate_model_first_ignores_state:
  "evaluate_model_first evaluate init_keras init_tff state_standard model_fn test_dataset =
   evaluate_model_first evaluate init_keras init_tff state_with_dp model_fn test_dataset"
  by (simp add: evaluate_model_first_def)

lemma evaluate_model_first_fresh_weights:
  assumes "length init_tff = length init_keras" and "test_dataset \<noteq> []"
  shows "evaluate_model_first evaluate init_keras init_tff state (model_fn_standard spec) test_dataset =
     Inr (evaluate
       ((create_keras_model init_keras)
          \<lparr>trainable_variables := init_tff,
           compiled := Some \<lparr>compile_optimizer = None,
             compile_loss = SparseCategoricalCrossentropy True,
             compile_metrics = [SparseCategoricalAccuracy]\<rparr>\<rparr>)
       (concat (map fst test_dataset)) (concat (map snd test_dataset)))"
  using assms
  by (simp add: evaluate_model_first_def assign_weights_to_keras_model_first_def compile_def
      unzip_concat_def assign_zip_same_length create_keras_model_def model_fn_standard_def
      from_keras_model_def weights_trainable_def)

text \<open>
  Two trained states that differ in their only weight, evaluated by the sum of the
  model's weights: the first \<^verbatim>\<open>evaluate_model\<close> returns the freshly drawn weight 5 for
  both, the enhanced one the weight of the state it is given.
\<close>

lemma evaluate_model_example:
  "evaluate_model_first (\<lambda>km xs ys. (sum_list (concat (trainable_variables km)), 0)) [[0]] [[5]]
     \<lparr>model = \<lparr>trainable = [[1]], non_trainable = []\<rparr>, optimizer_state = ()\<rparr>
     (model_fn_standard ()) [([0 :: nat], [0 :: nat])] = Inr (5, 0)
   \<and> evaluate_model_first (\<lambda>km xs ys. (sum_list (concat (trainable_variables km)), 0)) [[0]] [[5]]
     \<lparr>model = \<lparr>trainable = [[2]], non_trainable = []\<rparr>, optimizer_state = ()\<rparr>
     (model_fn_standard ()) [([0 :: nat], [0 :: nat])] = Inr (5, 0)
   \<and> evaluate_model (\<lambda>km xs ys. (sum_list (concat (trainable_variables km)), 0)) [[0]]
     \<lparr>model = \<lparr>trainable = [[1]], non_trainable = []\<rparr>, optimizer_state = ()\<rparr>
     (model_fn_standard ()) [([0 :: nat], [0 :: nat])] = Inr (1, 0)
   \<and> evaluate_model (\<lambda>km xs ys. (sum_list (concat (trainable_variables km)), 0)) [[0]]
     \<lparr>model = \<lparr>trainable = [[2]], non_trainable = []\<rparr>, optimizer_state = ()\<rparr>
     (model_fn_standard ()) [([0 :: nat], [0 :: nat])] = Inr (2, 0)"
  by (simp add: evaluate_model_first_def evaluate_model_def
      assign_weights_to_keras_model_first_def assign_weights_to_keras_model_def
      weights_trainable_def model_fn_standard_def from_keras_model_def create_keras_model_def
      compile_def assign_zip_def unzip_concat_def)

section \<open>The round number of the training loop\<close>

lemma for_rounds_snoc:
  assumes "raised t = None"
  shows "for_rounds process datasets (rounds @ [r]) t =
     (let t' = for_rounds process datasets rounds t
      in if raised t' = None then round_body process datasets r t' else t')"
  using assms
proof (induction rounds arbitrary: t)
  case Nil
  then show ?case by (simp add: Let_def)
next
  case (Cons a rounds)
  show ?case
  proof (cases "raised (round_body process datasets a t)")
    case None
    then show ?thesis
      using Cons.IH [of "round_body process datasets a t"] by (simp add: Let_def)
  next
    case (Some e)
    then show ?thesis by (simp add: Let_def)
  qed
qed

lemma train_0:
  "train process datasets 0 =
     \<lparr>server_state = initialize process, round_num = None, printed = [], raised = None\<rparr>"
  by (simp add: train_def)

lemma train_Suc:
  "train process datasets (Suc i) =
     (let t = train process datasets i
      in if raised t = None then round_body process datasets i t else t)"
  by (simp add: train_def for_rounds_snoc)

lemma train_Suc_running:
  "raised (train process datasets i) = None \<Longrightarrow>
     train process datasets (Suc i) = round_body process datasets i (train process datasets i)"
  by (simp add: train_Suc)


lemma round_body_ok:
  assumes "next_round process (server_state t) datasets = Inr (s', metrics)"
    and "metrics ''train'' = Some m"
  shows "round_body process datasets r t =
     t\<lparr>round_num := Some r, server_state := s', printed := printed t @ [(r, m)]\<rparr>"
  using assms by (simp add: round_body_def)

lemma round_body_raise:
  assumes "next_round process (server_state t) datasets = Inl e"
  shows "round_body process datasets r t = t\<lparr>round_num := Some r, raised := Some (NextRaised e)\<rparr>"
  using assms by (simp add: round_body_def)

lemma round_body_key_error:
  assumes "next_round process (server_state t) datasets = Inr (s', metrics)"
    and "metrics ''train'' = None"
  shows "round_body process datasets r t =
     t\<lparr>round_num := Some r, server_state := s', raised := Some (KeyError ''train'')\<rparr>"
  using assms by (simp add: round_body_def)

lemma round_body_cases:
  "(\<exists>e. round_body process datasets r t = t\<lparr>round_num := Some r, raised := Some (NextRaised e)\<rparr>)
   \<or> (\<exists>s'. round_body process datasets r t =
         t\<lparr>round_num := Some r, server_state := s', raised := Some (KeyError ''train'')\<rparr>)
   \<or> (\<exists>s' m. round_body process datasets r t =
         t\<lparr>round_num := Some r, server_state := s', printed := printed t @ [(r, m)]\<rparr>)"
proof (cases "next_round process (server_state t) datasets")
  case (Inl e)
  then show ?thesis
    using round_body_raise [of process t datasets e r] by blast
next
  case (Inr sm)
  obtain s' metrics where sm: "sm = (s', metrics)"
    by (cases sm)
  show ?thesis
  proof (cases "metrics ''train''")
    case None
    with Inr sm show ?thesis
      using round_body_key_error [of process t datasets s' metrics r] by blast
  next
    case (Some m)
    with Inr sm show ?thesis
      using round_body_ok [of process t datasets s' metrics m r] by blast
  qed
qed



lemma train_raised_Suc:
  "raised (train process datasets (Suc i)) = None \<Longrightarrow> raised (train process datasets i) = None"
  by (cases "raised (train process datasets i)") (simp_all add: train_Suc)



lemma train_printed_count:
  "raised (train process datasets i) = None \<Longrightarrow> length (printed (train process datasets i)) = i"
proof (induction i)
  case 0
  show ?case by (simp add: train_0)
next
  case (Suc i)
  have running: "raised (train process datasets i) = None"
    using Suc.prems by (rule train_raised_Suc)
  then have len: "length (printed (train process datasets i)) = i"
    by (rule Suc.IH)
  have step: "train process datasets (Suc i) = round_body process datasets i (train process datasets i)"
    using running by (rule train_Suc_running)
  from round_body_cases [of process datasets i "train process datasets i"] Suc.prems len
  show ?case
    unfolding step by auto
qed


lemma train_all_rounds:
  "raised (train process datasets n) = None \<Longrightarrow> length (printed (train process datasets n)) = n"
  by (rule train_printed_count)




end
